theory Spec2Isabelle
  imports Complex_Main "HOL-Library.AList"
begin

section \<open>The didymus pebble packer: data model\<close>

text \<open>
  The development embeds \<^verbatim>\<open>src/didymus/core.py\<close> and \<^verbatim>\<open>src/didymus/pack.py\<close>.
  Conventions of the embedding:
  \<^item> Python and numpy floats are modelled by the reals. Where the source divides by a
    quantity that is zero (a \<^verbatim>\<open>ZeroDivisionError\<close> on Python floats, an \<^verbatim>\<open>inf\<close> or
    \<^verbatim>\<open>nan\<close> on numpy floats) the model stops with \<open>ZeroDivision\<close>, and where
    \<^verbatim>\<open>np.log10\<close> is taken of zero it stops with \<open>NonFinite\<close>, so that no theorem
    speaks about HOL's \<open>x / 0 = 0\<close>.
  \<^item> \<^verbatim>\<open>np.floor(x, dtype=int)\<close> and \<^verbatim>\<open>np.ceil(x, dtype=int)\<close> raise
    \<^verbatim>\<open>TypeError\<close> for every float \<open>x\<close>: neither ufunc has a loop from a float to an
    integer result. They are the functions \<open>np_floor_int\<close> and \<open>np_ceil_int\<close> below.
  \<^item> The ambient generator \<^verbatim>\<open>rng\<close> is an explicit record of the outcomes it will
    deliver: unit draws in \<open>[0,1)\<close> for \<^verbatim>\<open>random\<close> and \<^verbatim>\<open>uniform\<close>, index draws for
    \<^verbatim>\<open>integers\<close>. A run that needs more outcomes than supplied ends in
    \<open>Exhausted\<close>; this is how a loop that keeps drawing forever shows up.
  \<^item> A raised exception is the \<open>Inl\<close> branch of a sum.
\<close>

datatype error =
    AssertionError string
  | AttributeError
  | IndexError
  | ValueError
  | UnboundLocalError
  | ZeroDivision
  | NonFinite
  | TypeError
  | Exhausted

type_synonym vec3 = "real \<times> real \<times> real"

text \<open>
  An instance of \<^verbatim>\<open>Core\<close> or \<^verbatim>\<open>CylCore\<close>: its class and its attributes. An
  attribute that no constructor has assigned is \<open>None\<close>, and reading it raises
  \<^verbatim>\<open>AttributeError\<close>.
\<close>

datatype pyclass = Core_class | CylCore_class

record core_obj =
  cls :: pyclass
  origin :: vec3
  downward_flow :: bool
  core_r :: "real option"
  core_h :: "real option"
  buff :: "real option"

text \<open>\<^verbatim>\<open>Core.__init__\<close> (core.py, lines 11-29).\<close>

definition Core :: "vec3 \<Rightarrow> bool \<Rightarrow> core_obj" where
  "Core org flow =
     \<lparr>cls = Core_class, origin = org, downward_flow = flow,
      core_r = None, core_h = None, buff = None\<rparr>"

text \<open>\<^verbatim>\<open>CylCore.__init__\<close> (core.py, lines 36-52): the parent's initialiser, then
  \<^verbatim>\<open>core_r\<close> and \<^verbatim>\<open>core_h\<close>.\<close>

definition CylCore :: "real \<Rightarrow> real \<Rightarrow> vec3 \<Rightarrow> bool \<Rightarrow> core_obj" where
  "CylCore r h org flow = (Core org flow)\<lparr>cls := CylCore_class, core_r := Some r, core_h := Some h\<rparr>"

definition getattr :: "'a option \<Rightarrow> error + 'a" where
  "getattr a = (case a of None \<Rightarrow> Inl AttributeError | Some v \<Rightarrow> Inr v)"

text \<open>
  The three lines shared by \<^verbatim>\<open>find_start_coords\<close> (pack.py, 158-160) and \<^verbatim>\<open>move\<close>
  (491-493). The result is \<open>(z_up, z_low, r_up)\<close>; the attributes are read in the
  order of the source.
\<close>

definition usable_bounds :: "core_obj \<Rightarrow> real \<Rightarrow> error + (real \<times> real \<times> real)" where
  "usable_bounds active_core pebble_r =
     (case getattr (core_h active_core) of Inl e \<Rightarrow> Inl e | Inr h \<Rightarrow>
      case getattr (buff active_core) of Inl e \<Rightarrow> Inl e | Inr b \<Rightarrow>
      case getattr (core_r active_core) of Inl e \<Rightarrow> Inl e | Inr r \<Rightarrow>
        Inr (snd (snd (origin active_core)) + 0.5 * h - pebble_r - b,
             snd (snd (origin active_core)) - 0.5 * h + pebble_r + b,
             r - pebble_r - b))"

subsection \<open>The random source\<close>

record rng =
  unit_draws :: "real list"
  int_draws :: "nat list"

text \<open>\<^verbatim>\<open>rng.random()\<close>: the next unit draw.\<close>

definition rng_random :: "rng \<Rightarrow> error + (real \<times> rng)" where
  "rng_random g =
     (case unit_draws g of
        [] \<Rightarrow> Inl Exhausted
      | u # us \<Rightarrow> Inr (u, g\<lparr>unit_draws := us\<rparr>))"

text \<open>\<^verbatim>\<open>rng.uniform(low, high)\<close>: \<open>low + (high - low) * u\<close> for the next unit draw.\<close>

definition rng_uniform :: "real \<Rightarrow> real \<Rightarrow> rng \<Rightarrow> error + (real \<times> rng)" where
  "rng_uniform low high g =
     (case rng_random g of Inl e \<Rightarrow> Inl e
      | Inr (u, g') \<Rightarrow> Inr (low + (high - low) * u, g'))"

text \<open>\<^verbatim>\<open>rng.integers(0, n)\<close>: raises \<^verbatim>\<open>ValueError\<close> for an empty range; otherwise the
  next index draw, reduced into \<open>{0..<n}\<close>.\<close>

definition rng_integers :: "int \<Rightarrow> rng \<Rightarrow> error + (nat \<times> rng)" where
  "rng_integers n g =
     (if n \<le> 0 then Inl ValueError
      else case int_draws g of
             [] \<Rightarrow> Inl Exhausted
           | d # ds \<Rightarrow> Inr (d mod nat n, g\<lparr>int_draws := ds\<rparr>))"

definition valid_rng :: "rng \<Rightarrow> bool" where
  "valid_rng g = list_all (\<lambda>u. 0 \<le> u \<and> u < 1) (unit_draws g)"

subsection \<open>Coordinate sampler\<close>

text \<open>The body of the loop of \<^verbatim>\<open>find_start_coords\<close> (pack.py, 163-169), \<open>k\<close> times.\<close>

fun sample_loop :: "nat \<Rightarrow> vec3 \<Rightarrow> real \<Rightarrow> real \<Rightarrow> real \<Rightarrow> rng \<Rightarrow> error + (vec3 list \<times> rng)" where
  "sample_loop 0 org z_low z_up r_up g = Inr ([], g)"
| "sample_loop (Suc k) org z_low z_up r_up g =
     (case rng_random g of Inl e \<Rightarrow> Inl e | Inr (f, g1) \<Rightarrow>
      case rng_uniform 0 (2 * pi) g1 of Inl e \<Rightarrow> Inl e | Inr (theta, g2) \<Rightarrow>
      case rng_uniform z_low z_up g2 of Inl e \<Rightarrow> Inl e | Inr (z, g3) \<Rightarrow>
      case sample_loop k org z_low z_up r_up g3 of Inl e \<Rightarrow> Inl e
      | Inr (ps, g4) \<Rightarrow>
          Inr ((fst org + f * r_up * cos theta, fst (snd org) + f * r_up * sin theta, z) # ps, g4))"

text \<open>\<^verbatim>\<open>find_start_coords\<close> (pack.py, 135-172). \<^verbatim>\<open>np.empty\<close> rejects a negative
  length.\<close>

definition find_start_coords :: "core_obj \<Rightarrow> real \<Rightarrow> int \<Rightarrow> rng \<Rightarrow> error + (vec3 list \<times> rng)" where
  "find_start_coords active_core pebble_r n_pebbles g =
     (case usable_bounds active_core pebble_r of Inl e \<Rightarrow> Inl e
      | Inr (z_up, z_low, r_up) \<Rightarrow>
          if n_pebbles < 0 then Inl ValueError
          else sample_loop (nat n_pebbles) (origin active_core) z_low z_up r_up g)"

subsection \<open>Pair mover\<close>

text \<open>
  The position array is a numpy object array whose entries are references to
  three-element arrays, and \<^verbatim>\<open>move\<close> writes into the two arrays it is handed. The
  model keeps this: \<open>coords\<close> is the list of references and the store maps a reference to
  the array's contents.
\<close>

type_synonym store = "nat \<Rightarrow> vec3"

definition clamp_z :: "real \<Rightarrow> real \<Rightarrow> real \<Rightarrow> real" where
  "clamp_z z_low z_up v = (if v > z_up then z_up else if v < z_low then z_low else v)"

text \<open>\<^verbatim>\<open>np.arctan(ux/uy)\<close> on numpy floats: a zero \<open>uy\<close> gives an infinite
  quotient, whose arctangent is \<open>\<plusminus>pi/2\<close>; \<open>0/0\<close> is \<^verbatim>\<open>nan\<close>.\<close>

definition arctan_quot :: "real \<Rightarrow> real \<Rightarrow> error + real" where
  "arctan_quot ux uy =
     (if uy = 0 then
        (if ux > 0 then Inr (pi / 2) else if ux < 0 then Inr (- pi / 2) else Inl NonFinite)
      else Inr (arctan (ux / uy)))"

text \<open>
  The first loop of \<^verbatim>\<open>move\<close> (pack.py, 495-509), unrolled over the three indices.
  The \<^verbatim>\<open>else\<close> of line 505 belongs to \<^verbatim>\<open>if i == 1\<close>, so the clamp to
  \<open>[z_low, z_up]\<close> runs for index 0 as well as for index 2.
\<close>

definition move_p1 :: "vec3 \<Rightarrow> real \<Rightarrow> real \<Rightarrow> real \<Rightarrow> vec3 \<Rightarrow> real \<Rightarrow> vec3 \<Rightarrow> error + vec3" where
  "move_p1 org z_up z_low r_up u l p =
     (case (org, u, p) of ((ox, oy, oz), (ux, uy, uz), (px, py, pz)) \<Rightarrow>
        let x0 = px + ux * l in
        case (if \<bar>x0\<bar> > ox + r_up
              then (case arctan_quot ux uy of Inl e \<Rightarrow> Inl e
                    | Inr theta \<Rightarrow> Inr (ox + r_up * cos theta))
              else Inr x0) of Inl e \<Rightarrow> Inl e
        | Inr x1 \<Rightarrow>
        let x2 = clamp_z z_low z_up x1;
            y0 = py + uy * l in
        case (if \<bar>y0\<bar> > oy + r_up
              then (case arctan_quot ux uy of Inl e \<Rightarrow> Inl e
                    | Inr theta \<Rightarrow> Inr (oy + r_up * sin theta))
              else Inr y0) of Inl e \<Rightarrow> Inl e
        | Inr y1 \<Rightarrow>
        let z0 = pz + uz * l in
        Inr (x2, y1, clamp_z z_low z_up z0))"

text \<open>The second loop (pack.py, 511-525): the tests compare with \<open>r_up\<close> alone and
  the re-projection subtracts.\<close>

definition move_p2 :: "vec3 \<Rightarrow> real \<Rightarrow> real \<Rightarrow> real \<Rightarrow> vec3 \<Rightarrow> real \<Rightarrow> vec3 \<Rightarrow> error + vec3" where
  "move_p2 org z_up z_low r_up u l p =
     (case (org, u, p) of ((ox, oy, oz), (ux, uy, uz), (px, py, pz)) \<Rightarrow>
        let x0 = px - ux * l in
        case (if \<bar>x0\<bar> > r_up
              then (case arctan_quot ux uy of Inl e \<Rightarrow> Inl e
                    | Inr theta \<Rightarrow> Inr (ox - r_up * cos theta))
              else Inr x0) of Inl e \<Rightarrow> Inl e
        | Inr x1 \<Rightarrow>
        let x2 = clamp_z z_low z_up x1;
            y0 = py - uy * l in
        case (if \<bar>y0\<bar> > r_up
              then (case arctan_quot ux uy of Inl e \<Rightarrow> Inl e
                    | Inr theta \<Rightarrow> Inr (oy - r_up * sin theta))
              else Inr y0) of Inl e \<Rightarrow> Inl e
        | Inr y1 \<Rightarrow>
        let z0 = pz - uz * l in
        Inr (x2, y1, clamp_z z_low z_up z0))"

text \<open>
  \<^verbatim>\<open>move\<close> (pack.py, 460-529). The unit vector is computed from the two arrays before
  either is written; the first array is written before the second is read, which is
  visible when both references are the same array. The function returns the two
  references it was handed, so its effect is the new store.
\<close>

definition move :: "core_obj \<Rightarrow> real \<Rightarrow> store \<Rightarrow> nat list \<Rightarrow> nat \<times> nat \<Rightarrow> real \<Rightarrow> real \<Rightarrow> error + store" where
  "move active_core pebble_r heap coords pair rod d_out =
     (let l = (d_out - rod) / 2 in
      if fst pair \<ge> length coords \<or> snd pair \<ge> length coords then Inl IndexError
      else
        let a1 = coords ! fst pair; a2 = coords ! snd pair in
        if rod = 0 then Inl ZeroDivision
        else
          case (heap a1, heap a2) of ((x1, y1, z1), (x2, y2, z2)) \<Rightarrow>
          let u = ((x1 - x2) / rod, (y1 - y2) / rod, (z1 - z2) / rod) in
          case usable_bounds active_core pebble_r of Inl e \<Rightarrow> Inl e
          | Inr (z_up, z_low, r_up) \<Rightarrow>
          case move_p1 (origin active_core) z_up z_low r_up u l (heap a1) of Inl e \<Rightarrow> Inl e
          | Inr q1 \<Rightarrow>
          let heap1 = heap(a1 := q1) in
          case move_p2 (origin active_core) z_up z_low r_up u l (heap1 a2) of Inl e \<Rightarrow> Inl e
          | Inr q2 \<Rightarrow> Inr (heap1(a2 := q2)))"

subsection \<open>Rounding with an integer result type\<close>

text \<open>
  \<^verbatim>\<open>np.floor(x, dtype=int)\<close> and \<^verbatim>\<open>np.ceil(x, dtype=int)\<close>. Neither ufunc has a loop
  that takes a float to an integer, so on a float numpy raises \<^verbatim>\<open>TypeError\<close> while it
  resolves the types: before any rounding, and whatever the value is (\<^verbatim>\<open>inf\<close> and
  \<^verbatim>\<open>nan\<close> included). \<^verbatim>\<open>pack.py\<close> has five such calls, in lines 104, 240, 413, 415
  and 417, and the argument of each is a float: a true division in lines 104 and 413-417,
  a numpy logarithm in line 240.
\<close>

definition np_floor_int :: "real \<Rightarrow> error + int" where
  "np_floor_int x = Inl TypeError"

definition np_ceil_int :: "real \<Rightarrow> error + int" where
  "np_ceil_int x = Inl TypeError"

subsection \<open>Conversion helpers\<close>

definition core_volume :: "real \<Rightarrow> real \<Rightarrow> real" where
  "core_volume r h = (pi * r\<^sup>2) * h"

definition pebble_volume :: "real \<Rightarrow> real" where
  "pebble_volume pebble_r = (4 / 3) * pi * pebble_r ^ 3"

text \<open>\<^verbatim>\<open>pf_to_n\<close> (pack.py, 80-105). The quotient of line 104 is one of Python
  floats and raises \<^verbatim>\<open>ZeroDivisionError\<close> for a pebble of no volume; then comes
  \<^verbatim>\<open>np.floor\<close> with \<^verbatim>\<open>dtype=int\<close>. A core of another class falls through the
  \<^verbatim>\<open>if\<close> and the function returns \<^verbatim>\<open>None\<close>.\<close>

definition pf_to_n :: "core_obj \<Rightarrow> real \<Rightarrow> real \<Rightarrow> error + int option" where
  "pf_to_n active_core pebble_r pf =
     (if cls active_core = CylCore_class then
        case getattr (core_r active_core) of Inl e \<Rightarrow> Inl e | Inr r \<Rightarrow>
        case getattr (core_h active_core) of Inl e \<Rightarrow> Inl e | Inr h \<Rightarrow>
          let core_vol = core_volume r h;
              p_vol_tot = pf * core_vol;
              p_vol = pebble_volume pebble_r
          in if p_vol = 0 then Inl ZeroDivision
             else case np_floor_int (p_vol_tot / p_vol) of Inl e \<Rightarrow> Inl e
                  | Inr n_pebbles \<Rightarrow> Inr (Some n_pebbles)
      else Inr None)"

text \<open>\<^verbatim>\<open>n_to_pf\<close> (pack.py, 108-132).\<close>

definition n_to_pf :: "core_obj \<Rightarrow> real \<Rightarrow> int \<Rightarrow> error + real option" where
  "n_to_pf active_core pebble_r n_pebbles =
     (if cls active_core = CylCore_class then
        case getattr (core_r active_core) of Inl e \<Rightarrow> Inl e | Inr r \<Rightarrow>
        case getattr (core_h active_core) of Inl e \<Rightarrow> Inl e | Inr h \<Rightarrow>
          let core_vol = core_volume r h;
              p_vol = pebble_volume pebble_r;
              p_vol_tot = p_vol * of_int n_pebbles
          in if core_vol = 0 then Inl ZeroDivision
             else Inr (Some (p_vol_tot / core_vol))
      else Inr None)"

subsection \<open>Separation estimator\<close>

text \<open>A Python \<^verbatim>\<open>dict\<close> from index pairs to distances, in insertion order.\<close>

type_synonym rods = "((nat \<times> nat) \<times> real) list"

definition vsub :: "vec3 \<Rightarrow> vec3 \<Rightarrow> vec3" where
  "vsub a b = (case (a, b) of ((x1, y1, z1), (x2, y2, z2)) \<Rightarrow> (x1 - x2, y1 - y2, z1 - z2))"

text \<open>\<^verbatim>\<open>np.linalg.norm\<close> of a three-element array.\<close>

definition norm3 :: "vec3 \<Rightarrow> real" where
  "norm3 v = (case v of (x, y, z) \<Rightarrow> sqrt (x\<^sup>2 + y\<^sup>2 + z\<^sup>2))"

text \<open>The loop \<^verbatim>\<open>while p2 == p1\<close> of \<^verbatim>\<open>select_pair\<close> (pack.py, 376-377).\<close>

fun draw_other :: "nat \<Rightarrow> nat \<Rightarrow> nat list \<Rightarrow> error + (nat \<times> nat list)" where
  "draw_other n p1 [] = Inl Exhausted"
| "draw_other n p1 (d # ds) = (if d mod n = p1 then draw_other n p1 ds else Inr (d mod n, ds))"

text \<open>\<^verbatim>\<open>select_pair\<close> (pack.py, 355-381); the position array is not used by it.\<close>

definition select_pair :: "int \<Rightarrow> rng \<Rightarrow> error + ((nat \<times> nat) \<times> rng)" where
  "select_pair n_pebbles g =
     (case rng_integers n_pebbles g of Inl e \<Rightarrow> Inl e
      | Inr (p1, g1) \<Rightarrow>
        case draw_other (nat n_pebbles) p1 (int_draws g1) of Inl e \<Rightarrow> Inl e
        | Inr (p2, ds) \<Rightarrow>
            Inr (if p1 > p2 then (p2, p1) else (p1, p2), g1\<lparr>int_draws := ds\<rparr>))"

text \<open>
  Lines 281-283 of \<^verbatim>\<open>nearest_neighbor\<close>: draw pairs until one is not yet a key. Every
  call of \<^verbatim>\<open>select_pair\<close> uses up index draws, so the number of draws left bounds the
  number of passes; the first argument counts them down.
\<close>

fun fresh_pair :: "nat \<Rightarrow> int \<Rightarrow> rods \<Rightarrow> rng \<Rightarrow> error + ((nat \<times> nat) \<times> rng)" where
  "fresh_pair 0 n_pebbles init_pairs g = Inl Exhausted"
| "fresh_pair (Suc fuel) n_pebbles init_pairs g =
     (case select_pair n_pebbles g of Inl e \<Rightarrow> Inl e
      | Inr (pr, g') \<Rightarrow>
          if pr \<in> set (map fst init_pairs) then fresh_pair fuel n_pebbles init_pairs g'
          else Inr (pr, g'))"

text \<open>The loop of lines 280-285, \<open>k\<close> passes.\<close>

fun sample_pairs :: "nat \<Rightarrow> int \<Rightarrow> vec3 list \<Rightarrow> rods \<Rightarrow> rng \<Rightarrow> error + (rods \<times> rng)" where
  "sample_pairs 0 n_pebbles coords init_pairs g = Inr (init_pairs, g)"
| "sample_pairs (Suc k) n_pebbles coords init_pairs g =
     (case fresh_pair (Suc (length (int_draws g))) n_pebbles init_pairs g of Inl e \<Rightarrow> Inl e
      | Inr ((p1, p2), g') \<Rightarrow>
          if p1 \<ge> length coords \<or> p2 \<ge> length coords then Inl IndexError
          else sample_pairs k n_pebbles coords
                 (AList.update (p1, p2) (norm3 (vsub (coords ! p1) (coords ! p2))) init_pairs) g')"

subsection \<open>Spatial lattice builder\<close>

text \<open>
  One of the three slab searches of \<^verbatim>\<open>meshgrid\<close> (pack.py, 422-431): \<open>j\<close> runs over
  \<^verbatim>\<open>range(M)\<close>, \<open>k\<close> counts the passes left, \<open>ix\<close> is the index found so far
  (\<^verbatim>\<open>None\<close> at the start). \<^verbatim>\<open>not ix\<close> holds for \<^verbatim>\<open>None\<close> and for \<open>0\<close>.
\<close>

fun slab_search :: "nat \<Rightarrow> int \<Rightarrow> int \<Rightarrow> real \<Rightarrow> real \<Rightarrow> real \<Rightarrow> int option \<Rightarrow> int option" where
  "slab_search 0 j M lo delta v ix = ix"
| "slab_search (Suc k) j M lo delta v ix =
     (if v > lo + of_int j * delta \<and> v \<le> lo + (of_int j + 1) * delta then Some j
      else slab_search k (j + 1) M lo delta v
             (if j = M - 1 then (if ix = None \<or> ix = Some 0 then Some j else ix) else ix))"

definition slab_index :: "int \<Rightarrow> real \<Rightarrow> real \<Rightarrow> real \<Rightarrow> int option" where
  "slab_index M lo delta v = slab_search (nat M) 0 M lo delta v None"

type_synonym cell = "int option \<times> int option \<times> int option"

text \<open>\<^verbatim>\<open>mesh_id[v].append(i)\<close> on a \<^verbatim>\<open>defaultdict(list)\<close>.\<close>

fun bucket_append :: "'k \<Rightarrow> nat \<Rightarrow> ('k \<times> nat list) list \<Rightarrow> ('k \<times> nat list) list" where
  "bucket_append v i [] = [(v, [i])]"
| "bucket_append v i ((k, pts) # rest) =
     (if k = v then (k, pts @ [i]) # rest else (k, pts) # bucket_append v i rest)"

text \<open>
  \<^verbatim>\<open>meshgrid\<close> (pack.py, 383-458). Its first statement, line 413, reads
  \<^verbatim>\<open>core_r\<close> and hands a quotient to \<^verbatim>\<open>np.ceil\<close> with \<^verbatim>\<open>dtype=int\<close>; lines 415
  and 417 do the same. What follows is the rest of the body as written:
  \<^verbatim>\<open>fild_sqrs\<close> is created with \<open>n_pebbles\<close> entries \<^verbatim>\<open>None\<close>; writing entry
  \<open>i \<ge> n_pebbles\<close> raises \<^verbatim>\<open>IndexError\<close>, and entries beyond the positions stay
  \<^verbatim>\<open>None\<close> and become the key \<^verbatim>\<open>None\<close> of the mapping.
\<close>

definition meshgrid :: "core_obj \<Rightarrow> vec3 list \<Rightarrow> int \<Rightarrow> real \<Rightarrow> error + (cell option \<times> nat list) list" where
  "meshgrid active_core coords n_pebbles delta =
     (case getattr (core_r active_core) of Inl e \<Rightarrow> Inl e | Inr r \<Rightarrow>
      if delta = 0 then Inl ZeroDivision else
      case np_ceil_int (r * 2 / delta) of Inl e \<Rightarrow> Inl e | Inr Mx \<Rightarrow>
      case np_ceil_int (r * 2 / delta) of Inl e \<Rightarrow> Inl e | Inr My \<Rightarrow>
      case getattr (core_h active_core) of Inl e \<Rightarrow> Inl e | Inr h \<Rightarrow>
      case np_ceil_int (h / delta) of Inl e \<Rightarrow> Inl e | Inr Mz \<Rightarrow>
      case origin active_core of (ox, oy, oz) \<Rightarrow>
        let x_min = ox - r; y_min = oy - r; z_min = oz - h / 2
        in if n_pebbles < 0 then Inl ValueError
           else if int (length coords) > n_pebbles then Inl IndexError
           else
             let fild_sqrs =
                   map (\<lambda>(x, y, z). Some (slab_index Mx x_min delta x,
                                           slab_index My y_min delta y,
                                           slab_index Mz z_min delta z)) coords
                   @ replicate (nat n_pebbles - length coords) None
             in Inr (foldl (\<lambda>mesh_id (i, v). bucket_append v i mesh_id) [] (enumerate 0 fild_sqrs)))"

subsection \<open>Overlap detector\<close>

text \<open>Lines 326-330: the rods from \<open>p1\<close> to the points after it in the neighbour list.\<close>

fun pair_inner :: "nat \<Rightarrow> nat list \<Rightarrow> vec3 list \<Rightarrow> rods \<Rightarrow> rods" where
  "pair_inner p1 [] coords rods = rods"
| "pair_inner p1 (p2 # ps) coords rods =
     pair_inner p1 ps coords
       (AList.update (if p1 < p2 then (p1, p2) else (p2, p1))
          (norm3 (vsub (coords ! p1) (coords ! p2))) rods)"

text \<open>Lines 322-330: \<open>i\<close> is the position in the neighbour list.\<close>

fun pair_loop :: "int \<Rightarrow> int \<Rightarrow> nat list \<Rightarrow> vec3 list \<Rightarrow> rods \<Rightarrow> rods" where
  "pair_loop i n_pebbles [] coords rods = rods"
| "pair_loop i n_pebbles (p1 # ps) coords rods =
     pair_loop (i + 1) n_pebbles ps coords
       (if i = n_pebbles - 1 then rods else pair_inner p1 ps coords rods)"

definition adjacent :: "int \<Rightarrow> int \<Rightarrow> bool" where
  "adjacent a b = (a \<le> b + 1 \<and> a \<ge> b - 1)"

text \<open>
  Lines 293-330, over the keys from the current one onward
  (\<^verbatim>\<open>list(mesh_id.keys())[i:]\<close>). \<^verbatim>\<open>y_dict\<close> is built and then not read: the loop of
  line 312 runs over \<^verbatim>\<open>x_dict\<close>.
\<close>

fun cell_loop :: "((int \<times> int \<times> int) \<times> nat list) list \<Rightarrow> int \<Rightarrow> vec3 list \<Rightarrow> rods \<Rightarrow> rods" where
  "cell_loop [] n_pebbles coords rods = rods"
| "cell_loop ((msqr, pts) # rest) n_pebbles coords rods =
     (let x_dict = filter (\<lambda>(sqr, _). adjacent (fst sqr) (fst msqr)) ((msqr, pts) # rest);
          y_dict = filter (\<lambda>(xsqr, _). adjacent (fst (snd xsqr)) (fst (snd msqr))) x_dict;
          neighbors = concat (map snd
                        (filter (\<lambda>(ysqr, _). adjacent (snd (snd ysqr)) (snd (snd msqr))) x_dict))
      in cell_loop rest n_pebbles coords (pair_loop 0 n_pebbles neighbors coords rods))"

text \<open>Lines 334-337.\<close>

definition drop_long :: "real \<Rightarrow> rods \<Rightarrow> rods" where
  "drop_long pebble_r rods = filter (\<lambda>(pair, d). \<not> d > 2 * pebble_r) rods"

definition touches :: "nat \<times> nat \<Rightarrow> nat \<Rightarrow> bool" where
  "touches pair p = (fst pair = p \<or> snd pair = p)"

text \<open>Lines 341-352 for one index \<open>p\<close>: \<open>temp\<close> is taken from the rods as they are
  when \<open>p\<close> is reached.\<close>

definition reduce_point :: "nat \<Rightarrow> rods \<Rightarrow> rods" where
  "reduce_point p rods =
     (let temp = filter (\<lambda>(pair, d). touches pair p) rods
      in if temp = [] then rods
         else filter (\<lambda>(tkey, d). \<not> (touches tkey p \<and> d \<noteq> min_list (map snd temp))) rods)"

definition reduce_all :: "int \<Rightarrow> rods \<Rightarrow> rods" where
  "reduce_all n_pebbles rods = foldl (\<lambda>rs p. reduce_point p rs) rods [0..<nat n_pebbles]"

text \<open>
  A key of the lattice with a component \<^verbatim>\<open>None\<close> (an empty \<^verbatim>\<open>range\<close> in
  \<^verbatim>\<open>meshgrid\<close>) or the key \<^verbatim>\<open>None\<close> makes the comparisons of lines 297-313 raise
  \<^verbatim>\<open>TypeError\<close>: every key is the current one of some pass, which reads all three of
  its components.
\<close>

definition int_cell :: "cell option \<Rightarrow> (int \<times> int \<times> int) option" where
  "int_cell c = (case c of Some (Some ix, Some iy, Some iz) \<Rightarrow> Some (ix, iy, iz) | _ \<Rightarrow> None)"

fun int_cells :: "(cell option \<times> nat list) list \<Rightarrow> ((int \<times> int \<times> int) \<times> nat list) list option" where
  "int_cells [] = Some []"
| "int_cells ((c, pts) # rest) =
     (case int_cell c of None \<Rightarrow> None
      | Some ic \<Rightarrow> (case int_cells rest of None \<Rightarrow> None | Some ics \<Rightarrow> Some ((ic, pts) # ics)))"

text \<open>Lines 279-330 of \<^verbatim>\<open>nearest_neighbor\<close>: the rods before any is dropped.
  \<^verbatim>\<open>min\<close> of no values raises \<^verbatim>\<open>ValueError\<close>.\<close>

definition unfiltered_rods :: "core_obj \<Rightarrow> vec3 list \<Rightarrow> int \<Rightarrow> rng \<Rightarrow> error + (rods \<times> rng)" where
  "unfiltered_rods active_core coords n_pebbles g =
     (case sample_pairs (nat n_pebbles) n_pebbles coords [] g of Inl e \<Rightarrow> Inl e
      | Inr (init_pairs, g') \<Rightarrow>
          if init_pairs = [] then Inl ValueError
          else
            let delta = min_list (map snd init_pairs) in
            case meshgrid active_core coords n_pebbles delta of Inl e \<Rightarrow> Inl e
            | Inr mesh_id \<Rightarrow>
              case int_cells mesh_id of None \<Rightarrow> Inl TypeError
              | Some cells \<Rightarrow> Inr (cell_loop cells n_pebbles coords [], g'))"

text \<open>\<^verbatim>\<open>nearest_neighbor\<close> (pack.py, 251-353): the rods of lines 279-330, then the
  two reductions of lines 334-352.\<close>

definition nearest_neighbor :: "core_obj \<Rightarrow> real \<Rightarrow> vec3 list \<Rightarrow> int \<Rightarrow> rng \<Rightarrow> error + (rods \<times> rng)" where
  "nearest_neighbor active_core pebble_r coords n_pebbles g =
     (case unfiltered_rods active_core coords n_pebbles g of Inl e \<Rightarrow> Inl e
      | Inr (rods, g') \<Rightarrow> Inr (reduce_all n_pebbles (drop_long pebble_r rods), g'))"

subsection \<open>Relaxation iterator\<close>

text \<open>The three ways out of the loop of \<^verbatim>\<open>jt_algorithm\<close>: the empty rod queue
  (line 219), the break of line 238, and the cap of line 243.\<close>

datatype terminal = CONVERGED | FAILED_SLOW_CONVERGENCE | FAILED_ITERATION_LIMIT

record jt_state =
  st_heap :: store
  st_d_out :: real
  st_iter :: int
  st_gen :: rng

text \<open>Lines 239-241: the new \<open>d_out\<close> after one rod. \<^verbatim>\<open>n_to_pf\<close> returns
  \<^verbatim>\<open>None\<close> for a core of another class, and \<^verbatim>\<open>None - None\<close> raises
  \<^verbatim>\<open>TypeError\<close>. Line 240 hands the logarithm to \<^verbatim>\<open>np.floor\<close> with
  \<^verbatim>\<open>dtype=int\<close>.\<close>

definition shrink :: "core_obj \<Rightarrow> int \<Rightarrow> real \<Rightarrow> real \<Rightarrow> real \<Rightarrow> real \<Rightarrow> error + real" where
  "shrink active_core n_pebbles k d_out_0 d_in d_out =
     (case n_to_pf active_core (d_out / 2) n_pebbles of Inl e \<Rightarrow> Inl e | Inr a \<Rightarrow>
      case n_to_pf active_core (d_in / 2) n_pebbles of Inl e \<Rightarrow> Inl e | Inr b \<Rightarrow>
      case (a, b) of
        (Some pf_out, Some pf_in) \<Rightarrow>
          let del_pf = pf_out - pf_in in
          if del_pf = 0 then Inl NonFinite
          else
            (case np_floor_int (- log 10 \<bar>del_pf\<bar>) of Inl e \<Rightarrow> Inl e
             | Inr j \<Rightarrow>
                 if n_pebbles = 0 then Inl ZeroDivision
                 else Inr (d_out - ((1 / 2) powi j) * (k / of_int n_pebbles) * d_out_0))
      | _ \<Rightarrow> Inl TypeError)"

text \<open>
  The loop over the rod queue (lines 223-242). \<open>rod_queue\<close> is the whole queue (for
  \<open>d_in\<close>), the next argument the rods still to come. The result says whether the
  loop was left by \<^verbatim>\<open>break\<close>.
\<close>

fun rod_loop :: "core_obj \<Rightarrow> real \<Rightarrow> nat list \<Rightarrow> int \<Rightarrow> real \<Rightarrow> real \<Rightarrow> rods \<Rightarrow> rods \<Rightarrow>
                 store \<Rightarrow> real \<Rightarrow> int \<Rightarrow> error + (bool \<times> store \<times> real \<times> int)" where
  "rod_loop active_core pebble_r coords n_pebbles k d_out_0 rod_queue [] hp dout i =
     Inr (False, hp, dout, i)"
| "rod_loop active_core pebble_r coords n_pebbles k d_out_0 rod_queue ((rod, len) # rest) hp dout i =
     (let d_in = min_list (map snd rod_queue) in
      case move active_core pebble_r hp coords rod len dout of Inl e \<Rightarrow> Inl e
      | Inr hp' \<Rightarrow>
          if dout < d_in then Inr (True, hp', dout, i)
          else
            case shrink active_core n_pebbles k d_out_0 d_in dout of Inl e \<Rightarrow> Inl e
            | Inr dout' \<Rightarrow>
                rod_loop active_core pebble_r coords n_pebbles k d_out_0 rod_queue rest
                  hp' dout' (i + 1))"

text \<open>
  One pass of the \<^verbatim>\<open>while\<close> loop (lines 218-246): the terminal state it ends in, if
  any, and the state after it.
\<close>

definition jt_round :: "core_obj \<Rightarrow> real \<Rightarrow> nat list \<Rightarrow> int \<Rightarrow> real \<Rightarrow> real \<Rightarrow> jt_state \<Rightarrow>
                        error + (terminal option \<times> jt_state)" where
  "jt_round active_core pebble_r coords n_pebbles k d_out_0 st =
     (case nearest_neighbor active_core pebble_r (map (st_heap st) coords) n_pebbles (st_gen st) of
        Inl e \<Rightarrow> Inl e
      | Inr (rod_queue, g') \<Rightarrow>
          if rod_queue = [] then Inr (Some CONVERGED, st\<lparr>st_gen := g'\<rparr>)
          else
            case rod_loop active_core pebble_r coords n_pebbles k d_out_0 rod_queue rod_queue
                   (st_heap st) (st_d_out st) (st_iter st) of Inl e \<Rightarrow> Inl e
            | Inr (broke, hp', dout', i') \<Rightarrow>
                let st' = \<lparr>st_heap = hp', st_d_out = dout', st_iter = i', st_gen = g'\<rparr> in
                if broke then Inr (Some FAILED_SLOW_CONVERGENCE, st')
                else if i' > 10 ^ 8 then Inr (Some FAILED_ITERATION_LIMIT, st')
                else Inr (None, st'))"

text \<open>The \<^verbatim>\<open>while\<close> loop, at most \<open>fuel\<close> passes.\<close>

fun jt_loop :: "nat \<Rightarrow> core_obj \<Rightarrow> real \<Rightarrow> nat list \<Rightarrow> int \<Rightarrow> real \<Rightarrow> real \<Rightarrow> jt_state \<Rightarrow>
                error + (terminal \<times> jt_state)" where
  "jt_loop 0 active_core pebble_r coords n_pebbles k d_out_0 st = Inl Exhausted"
| "jt_loop (Suc fuel) active_core pebble_r coords n_pebbles k d_out_0 st =
     (case jt_round active_core pebble_r coords n_pebbles k d_out_0 st of Inl e \<Rightarrow> Inl e
      | Inr (Some t, st') \<Rightarrow> Inr (t, st')
      | Inr (None, st') \<Rightarrow> jt_loop fuel active_core pebble_r coords n_pebbles k d_out_0 st')"

text \<open>Lines 205-208. With a core of another class \<^verbatim>\<open>core_vol\<close> is never assigned;
  \<^verbatim>\<open>np.cbrt\<close> is the real cube root.\<close>

definition jt_d_out_0 :: "core_obj \<Rightarrow> int \<Rightarrow> error + real" where
  "jt_d_out_0 active_core n_pebbles =
     (if cls active_core = CylCore_class then
        case getattr (core_r active_core) of Inl e \<Rightarrow> Inl e | Inr r \<Rightarrow>
        case getattr (core_h active_core) of Inl e \<Rightarrow> Inl e | Inr h \<Rightarrow>
          if n_pebbles = 0 then Inl ZeroDivision
          else Inr (2 * root 3 ((3 * core_volume r h) / (4 * pi * of_int n_pebbles)))
      else Inl UnboundLocalError)"

text \<open>\<^verbatim>\<open>jt_algorithm\<close> (pack.py, 174-249), on the store and the list of references.\<close>

definition jt_algorithm :: "nat \<Rightarrow> core_obj \<Rightarrow> real \<Rightarrow> store \<Rightarrow> nat list \<Rightarrow> int \<Rightarrow> real \<Rightarrow> rng \<Rightarrow>
                            error + (terminal \<times> jt_state)" where
  "jt_algorithm fuel active_core pebble_r hp coords n_pebbles k g =
     (case jt_d_out_0 active_core n_pebbles of Inl e \<Rightarrow> Inl e
      | Inr d_out_0 \<Rightarrow>
          jt_loop fuel active_core pebble_r coords n_pebbles k d_out_0
            \<lparr>st_heap = hp, st_d_out = d_out_0, st_iter = 0, st_gen = g\<rparr>)"

subsection \<open>The values of the nominal diameter\<close>

text \<open>
  \<^verbatim>\<open>jt_algorithm\<close> assigns \<open>d_out\<close> in two places: line 208 gives it the value
  \<open>d_out_0\<close>, and line 241 a new value after each rod. The functions below follow the
  run as \<open>rod_loop\<close> and \<open>jt_loop\<close> do and collect the values assigned, in the order of
  the assignments, up to the end of the run or to the exception that ends it.
\<close>

fun rod_loop_values :: "core_obj \<Rightarrow> real \<Rightarrow> nat list \<Rightarrow> int \<Rightarrow> real \<Rightarrow> real \<Rightarrow> rods \<Rightarrow> rods \<Rightarrow>
                        store \<Rightarrow> real \<Rightarrow> real list" where
  "rod_loop_values active_core pebble_r coords n_pebbles k d_out_0 rod_queue [] hp dout = []"
| "rod_loop_values active_core pebble_r coords n_pebbles k d_out_0 rod_queue ((rod, len) # rest) hp dout =
     (let d_in = min_list (map snd rod_queue) in
      case move active_core pebble_r hp coords rod len dout of Inl e \<Rightarrow> []
      | Inr hp' \<Rightarrow>
          if dout < d_in then []
          else
            case shrink active_core n_pebbles k d_out_0 d_in dout of Inl e \<Rightarrow> []
            | Inr dout' \<Rightarrow>
                dout' # rod_loop_values active_core pebble_r coords n_pebbles k d_out_0 rod_queue rest
                          hp' dout')"

fun jt_loop_values :: "nat \<Rightarrow> core_obj \<Rightarrow> real \<Rightarrow> nat list \<Rightarrow> int \<Rightarrow> real \<Rightarrow> real \<Rightarrow> jt_state \<Rightarrow>
                       real list" where
  "jt_loop_values 0 active_core pebble_r coords n_pebbles k d_out_0 st = []"
| "jt_loop_values (Suc fuel) active_core pebble_r coords n_pebbles k d_out_0 st =
     (case nearest_neighbor active_core pebble_r (map (st_heap st) coords) n_pebbles (st_gen st) of
        Inl e \<Rightarrow> []
      | Inr (rod_queue, g') \<Rightarrow>
          rod_loop_values active_core pebble_r coords n_pebbles k d_out_0 rod_queue rod_queue
            (st_heap st) (st_d_out st)
          @ (case jt_round active_core pebble_r coords n_pebbles k d_out_0 st of
               Inr (None, st') \<Rightarrow> jt_loop_values fuel active_core pebble_r coords n_pebbles k d_out_0 st'
             | _ \<Rightarrow> []))"

definition d_out_values :: "nat \<Rightarrow> core_obj \<Rightarrow> real \<Rightarrow> store \<Rightarrow> nat list \<Rightarrow> int \<Rightarrow> real \<Rightarrow> rng \<Rightarrow> real list" where
  "d_out_values fuel active_core pebble_r hp coords n_pebbles k g =
     (case jt_d_out_0 active_core n_pebbles of Inl e \<Rightarrow> []
      | Inr d_out_0 \<Rightarrow>
          d_out_0 # jt_loop_values fuel active_core pebble_r coords n_pebbles k d_out_0
                      \<lparr>st_heap = hp, st_d_out = d_out_0, st_iter = 0, st_gen = g\<rparr>)"

subsection \<open>The public packing operation\<close>

text \<open>The values the two material arguments are tested for.\<close>

datatype pyval = PyInt int | NdArray "int list" | PyDict "(int \<times> real) list"

text \<open>
  Lines 46-64 of \<^verbatim>\<open>pebble_packing\<close>: the assertions and the conversion between count
  and fraction. The result is the pebble count handed to the sampler. Comparing an array
  with \<open>0\<close> is elementwise, and the truth value of an array of several elements raises
  \<^verbatim>\<open>ValueError\<close>.
\<close>

definition pebble_packing_checks :: "core_obj \<Rightarrow> real \<Rightarrow> int \<Rightarrow> pyval \<Rightarrow> real \<Rightarrow> pyval \<Rightarrow> error + int" where
  "pebble_packing_checks active_core pebble_r n_pebbles n_mat_ids pf pf_mat_ids =
     (if \<not> (n_pebbles \<noteq> 0 \<or> pf \<noteq> 0) then Inl (AssertionError ''n_pebbles or pf must be provided'')
      else if n_pebbles \<noteq> 0 \<and> pf \<noteq> 0 then Inl (AssertionError ''only provide one of n_pebbles or pf'')
      else if \<not> pf \<le> 0.6 then Inl (AssertionError ''pf must be less than or equal to 0.6'')
      else if cls active_core \<noteq> CylCore_class then Inl (AssertionError ''Only CylCore is currently supported'')
      else if n_pebbles \<noteq> 0 \<and> pf = 0 then
        (case n_mat_ids of
           NdArray ids \<Rightarrow>
             if int (length ids) \<noteq> n_pebbles
             then Inl (AssertionError ''n_mat_ids must be a numpy array with length equal to n_pebbles'')
             else
               (case n_to_pf active_core pebble_r n_pebbles of Inl e \<Rightarrow> Inl e
                | Inr None \<Rightarrow> Inl TypeError
                | Inr (Some pf') \<Rightarrow>
                    if \<not> pf' \<le> 0.6
                    then Inl (AssertionError ''pf must be less than or equal to 0.6.  n_pebbles is too high.'')
                    else Inr n_pebbles)
         | _ \<Rightarrow> Inl (AssertionError ''n_mat_ids must be a numpy array with length equal to n_pebbles''))
      else if pf \<noteq> 0 \<and> n_pebbles = 0 then
        (case pf_mat_ids of
           PyInt v \<Rightarrow>
             if v = 0 then Inl (AssertionError ''pf_mat_ids must be defined if using pf'')
             else Inl (AssertionError ''pf_mat_ids must be a dictionary'')
         | NdArray ids \<Rightarrow>
             if length ids > 1 then Inl ValueError
             else if ids = [] \<or> ids = [0] then Inl (AssertionError ''pf_mat_ids must be defined if using pf'')
             else Inl (AssertionError ''pf_mat_ids must be a dictionary'')
         | PyDict d \<Rightarrow>
             (case pf_to_n active_core pebble_r pf of Inl e \<Rightarrow> Inl e
              | Inr None \<Rightarrow> Inl TypeError
              | Inr (Some n) \<Rightarrow> Inr n))
      else Inr n_pebbles)"

text \<open>
  \<^verbatim>\<open>pebble_packing\<close> (pack.py, 9-77): the checks, then the sampler, whose arrays are
  stored at the references \<open>0, \<dots>, n - 1\<close>, then the relaxation.
\<close>

definition pebble_packing :: "nat \<Rightarrow> core_obj \<Rightarrow> real \<Rightarrow> int \<Rightarrow> pyval \<Rightarrow> real \<Rightarrow> pyval \<Rightarrow> real \<Rightarrow> rng \<Rightarrow>
                              error + (vec3 list \<times> rng)" where
  "pebble_packing fuel active_core pebble_r n_pebbles n_mat_ids pf pf_mat_ids k g =
     (case pebble_packing_checks active_core pebble_r n_pebbles n_mat_ids pf pf_mat_ids of
        Inl e \<Rightarrow> Inl e
      | Inr n \<Rightarrow>
          case find_start_coords active_core pebble_r n g of Inl e \<Rightarrow> Inl e
          | Inr (init_coords, g1) \<Rightarrow>
              case jt_algorithm fuel active_core pebble_r (\<lambda>a. init_coords ! a)
                     [0..<length init_coords] n k g1 of Inl e \<Rightarrow> Inl e
              | Inr (t, st) \<Rightarrow> Inr (map (st_heap st) [0..<length init_coords], st_gen st))"

subsection \<open>The usable region and two example configurations\<close>

text \<open>Distance of a position from the cylinder axis, and the region the positions are
  meant to stay in: within \<open>r_up\<close> of the axis and between \<open>z_low\<close> and \<open>z_up\<close>.\<close>

definition planar_dist :: "vec3 \<Rightarrow> vec3 \<Rightarrow> real" where
  "planar_dist org p = sqrt ((fst p - fst org)\<^sup>2 + (fst (snd p) - fst (snd org))\<^sup>2)"

definition in_usable_region :: "core_obj \<Rightarrow> real \<Rightarrow> vec3 \<Rightarrow> bool" where
  "in_usable_region active_core pebble_r p =
     (case usable_bounds active_core pebble_r of Inl e \<Rightarrow> False
      | Inr (z_up, z_low, r_up) \<Rightarrow>
          planar_dist (origin active_core) p \<le> r_up \<and> z_low \<le> snd (snd p) \<and> snd (snd p) \<le> z_up)"

text \<open>A generator that delivers the given index draws.\<close>

definition draws :: "nat list \<Rightarrow> rng" where
  "draws ds = \<lparr>unit_draws = [], int_draws = ds\<rparr>"

text \<open>A core of radius 10 and height 20 at the origin, with the attribute \<^verbatim>\<open>buff\<close>
  assigned by hand after construction.\<close>

definition core10 :: core_obj where
  "core10 = (CylCore 10 20 (0, 0, 0) True)\<lparr>buff := Some 0\<rparr>"

definition pts3 :: store where
  "pts3 = (\<lambda>a. if a = 0 then (27 / 5, 36 / 5, 0) else if a = 1 then (24 / 5, 32 / 5, 0) else (0, 0, 0))"


definition quad :: "vec3 list" where
  "quad = [(0, - 6, - 7), (0, - 6, 2), (0, 6, - 7), (0, 6, 7)]"


definition quad_store :: store where
  "quad_store = (\<lambda>a. if a < 4 then quad ! a else (0, 0, 0))"


section \<open>The geometry object and the boundary buffer\<close>

text \<open>
  Claim C9. Every attribute the packing engine reads on a \<^verbatim>\<open>CylCore\<close> built by the
  constructor should be there. The constructor assigns \<^verbatim>\<open>origin\<close>,
  \<^verbatim>\<open>downward_flow\<close>, \<^verbatim>\<open>core_r\<close> and \<^verbatim>\<open>core_h\<close> and never \<^verbatim>\<open>buff\<close>: on every
  constructed core the sampler stops with \<^verbatim>\<open>AttributeError\<close> whatever its other
  arguments are, and so does the pair mover on a well-formed call.
\<close>

theorem CylCore_lacks_buff:
  "buff (CylCore r h org flow) = None \<and>
   find_start_coords (CylCore r h org flow) pebble_r n g = Inl AttributeError \<and>
   move (CylCore 10 20 (0, 0, 0) True) 1
        (\<lambda>a. if a = 0 then (0, 0, 0) else (1, 0, 0)) [0, 1] (0, 1) 1 2 = Inl AttributeError"
  by (simp add: CylCore_def Core_def find_start_coords_def move_def usable_bounds_def getattr_def)


section \<open>Packing fraction and pebble count\<close>

text \<open>On a constructed cylinder \<^verbatim>\<open>pf_to_n\<close> never returns: it raises at the
  division of line 104 for a pebble of no volume, and at the rounding of the same line
  otherwise.\<close>

lemma pf_to_n_CylCore:
  "pf_to_n (CylCore r h org flow) pebble_r pf =
     (if pebble_volume pebble_r = 0 then Inl ZeroDivision else Inl TypeError)"
  by (simp add: pf_to_n_def np_floor_int_def CylCore_def Core_def getattr_def)

text \<open>
  Claim C8. \<^verbatim>\<open>n_to_pf\<close> of the count that \<^verbatim>\<open>pf_to_n\<close> returns should give the
  fraction back, up to the loss of the floor. For a core of radius 10 and height 20, unit
  pebbles and the fraction \<open>3/10\<close>, the quotient of line 104 is \<open>450\<close>, and
  \<^verbatim>\<open>n_to_pf\<close> of 450 pebbles is \<open>3/10\<close> again; but \<^verbatim>\<open>pf_to_n\<close> raises
  \<^verbatim>\<open>TypeError\<close> when it rounds the quotient, here and for every constructed cylinder,
  so there is no count to compose with.
\<close>

theorem pf_to_n_raises:
  "pf_to_n (CylCore 10 20 (0, 0, 0) True) 1 (3 / 10) = Inl TypeError \<and>
   (3 / 10) * core_volume 10 20 / pebble_volume 1 = 450 \<and>
   n_to_pf (CylCore 10 20 (0, 0, 0) True) 1 450 = Inr (Some (3 / 10)) \<and>
   pf_to_n (CylCore r h org flow) pebble_r pf \<noteq> Inr (Some n)"
proof -
  have a: "pf_to_n (CylCore 10 20 (0, 0, 0) True) 1 (3 / 10) = Inl TypeError"
    by (simp add: pf_to_n_CylCore pebble_volume_def)
  have b: "(3 / 10) * core_volume 10 20 / pebble_volume 1 = 450"
    by (simp add: core_volume_def pebble_volume_def)
  have c: "n_to_pf (CylCore 10 20 (0, 0, 0) True) 1 450 = Inr (Some (3 / 10))"
    by (simp add: n_to_pf_def CylCore_def Core_def getattr_def core_volume_def pebble_volume_def)
  have d: "pf_to_n (CylCore r h org flow) pebble_r pf \<noteq> Inr (Some n)"
    by (simp add: pf_to_n_CylCore)
  show ?thesis using a b c d by blast
qed

section \<open>Eager validation of the packing request\<close>

lemma checks_reject:
  assumes "pf > 0.6 \<or> (\<exists>q. n_to_pf active_core pebble_r n_pebbles = Inr (Some q) \<and> q > 0.6)"
  shows "\<exists>msg. pebble_packing_checks active_core pebble_r n_pebbles n_mat_ids pf pf_mat_ids
                 = Inl (AssertionError msg)"
  using assms
proof
  assume "pf > 0.6"
  then show ?thesis by (simp add: pebble_packing_checks_def)
next
  assume "\<exists>q. n_to_pf active_core pebble_r n_pebbles = Inr (Some q) \<and> q > 0.6"
  then obtain q where q: "n_to_pf active_core pebble_r n_pebbles = Inr (Some q)" "q > 0.6" by blast
  have c: "cls active_core = CylCore_class"
    using q(1) by (auto simp: n_to_pf_def split: if_splits)
  have n: "n_pebbles \<noteq> 0"
    using q by (auto simp: n_to_pf_def Let_def split: if_splits sum.splits)
  show ?thesis
    using q c n by (cases n_mat_ids) (simp_all add: pebble_packing_checks_def)
qed

text \<open>
  Claim C4. When the supplied packing fraction exceeds 0.60, or the fraction that
  \<^verbatim>\<open>n_to_pf\<close> computes for the supplied count does, the checks of lines 46-64 end in an
  \<^verbatim>\<open>AssertionError\<close>, and \<^verbatim>\<open>pebble_packing\<close> returns that error whatever the
  generator holds: the sampler is never entered.
\<close>

theorem pebble_packing_rejects:
  assumes "pf > 0.6 \<or> (\<exists>q. n_to_pf active_core pebble_r n_pebbles = Inr (Some q) \<and> q > 0.6)"
  shows "\<exists>msg. pebble_packing_checks active_core pebble_r n_pebbles n_mat_ids pf pf_mat_ids
                 = Inl (AssertionError msg) \<and>
               (\<forall>fuel k g. pebble_packing fuel active_core pebble_r n_pebbles n_mat_ids pf pf_mat_ids k g
                 = Inl (AssertionError msg))"
proof -
  obtain msg where "pebble_packing_checks active_core pebble_r n_pebbles n_mat_ids pf pf_mat_ids
                 = Inl (AssertionError msg)" using checks_reject[OF assms] by blast
  then show ?thesis by (simp add: pebble_packing_def)
qed

theorem pebble_packing_rejects_witness:
  "((65 / 100 :: real) > 0.6 \<or>
     (\<exists>q. n_to_pf (CylCore 10 20 (0, 0, 0) True) 1 0 = Inr (Some q) \<and> q > 0.6)) \<and>
   (\<exists>msg. pebble_packing_checks (CylCore 10 20 (0, 0, 0) True) 1 0 (PyInt 0) (65 / 100) (PyDict [(1, 1)])
            = Inl (AssertionError msg) \<and>
          (\<forall>fuel k g. pebble_packing fuel (CylCore 10 20 (0, 0, 0) True) 1 0 (PyInt 0) (65 / 100)
                         (PyDict [(1, 1)]) k g = Inl (AssertionError msg)))"
  using pebble_packing_rejects [of "65 / 100" "CylCore 10 20 (0, 0, 0) True" 1 0 "PyInt 0" "PyDict [(1, 1)]"]
  by simp

text \<open>A count of 1000 unit pebbles in a core of radius 10 and height 20 is a fraction
  of two thirds: rejected by the assertion of line 58.\<close>

lemma count_too_high_rejected:
  "pebble_packing fuel (CylCore 10 20 (0, 0, 0) True) 1 1000 (NdArray (replicate 1000 7)) 0 (PyInt 0) k g
     = Inl (AssertionError ''pf must be less than or equal to 0.6.  n_pebbles is too high.'')"
  by (simp add: pebble_packing_def pebble_packing_checks_def n_to_pf_def CylCore_def Core_def
        getattr_def core_volume_def pebble_volume_def)

section \<open>The pair mover\<close>

lemma bounds10: "usable_bounds core10 1 = Inr (9, - 9, 9)"
  by (simp add: core10_def CylCore_def Core_def usable_bounds_def getattr_def)

lemma origin10: "origin core10 = (0, 0, 0)"
  by (simp add: core10_def CylCore_def Core_def)

lemma sqrt81: "sqrt 81 = 9" and sqrt64: "sqrt 64 = 8" and sqrt100: "sqrt 100 = 10"
  by (simp_all add: real_sqrt_unique)

lemma move_pts3:
  "move core10 1 pts3 [0, 1, 2] (0, 1) 1 3 = Inr (pts3(0 := (6, 8, 0), 1 := (21 / 5, 28 / 5, 0)))"
  by (simp add: move_def bounds10 origin10 move_p1_def move_p2_def clamp_z_def pts3_def Let_def)

text \<open>A returning call changes the store at the two arrays of the pair only.\<close>

lemma move_frame_store:
  assumes "move active_core pebble_r hp coords pair rod dout = Inr hp'"
      and "a \<noteq> coords ! fst pair" and "a \<noteq> coords ! snd pair"
  shows "hp' a = hp a"
  using assms
  by (auto simp: move_def Let_def split: if_splits sum.splits prod.splits)

text \<open>
  Claim C10. A call of \<^verbatim>\<open>move\<close> that returns has written into the two arrays
  \<open>coords[pair[0]]\<close> and \<open>coords[pair[1]]\<close> and into no other; so in a position array
  whose entries are different arrays, as the sampler builds it, every other entry is as
  it was.
\<close>

theorem move_frame:
  assumes "move active_core pebble_r hp coords pair rod dout = Inr hp'"
  shows "(\<forall>a. a \<noteq> coords ! fst pair \<and> a \<noteq> coords ! snd pair \<longrightarrow> hp' a = hp a) \<and>
         (distinct coords \<longrightarrow>
            (\<forall>i. i < length coords \<and> i \<noteq> fst pair \<and> i \<noteq> snd pair \<longrightarrow>
                 hp' (coords ! i) = hp (coords ! i)))"
proof -
  have p: "fst pair < length coords" "snd pair < length coords"
    using assms by (auto simp: move_def Let_def split: if_splits)
  have a: "\<forall>a. a \<noteq> coords ! fst pair \<and> a \<noteq> coords ! snd pair \<longrightarrow> hp' a = hp a"
    using move_frame_store[OF assms] by blast
  have "hp' (coords ! i) = hp (coords ! i)"
    if "distinct coords" "i < length coords" "i \<noteq> fst pair" "i \<noteq> snd pair" for i
  proof -
    have "coords ! i \<noteq> coords ! fst pair" "coords ! i \<noteq> coords ! snd pair"
      using that p by (simp_all add: nth_eq_iff_index_eq)
    then show ?thesis using a by blast
  qed
  then show ?thesis using a by blast
qed

theorem move_frame_witness:
  "move core10 1 pts3 [0, 1, 2] (0, 1) 1 3 = Inr (pts3(0 := (6, 8, 0), 1 := (21 / 5, 28 / 5, 0))) \<and>
   distinct [0, 1, 2 :: nat] \<and> (2 :: nat) < length [0, 1, 2 :: nat] \<and>
   (2 :: nat) \<noteq> fst (0 :: nat, 1 :: nat) \<and> (2 :: nat) \<noteq> snd (0 :: nat, 1 :: nat) \<and>
   (pts3(0 := (6, 8, 0), 1 := (21 / 5, 28 / 5, 0))) ([0, 1, 2] ! 2) = pts3 ([0, 1, 2] ! 2) \<and>
   (pts3(0 := (6, 8, 0), 1 := (21 / 5, 28 / 5, 0))) 7 = pts3 7"
  using move_frame [OF move_pts3] move_pts3 by simp

text \<open>
  Claim C2. Every position the sampler produces and every position the pair mover
  leaves behind should lie in the usable region. The mover tests each planar
  coordinate on its own against \<open>r_up\<close>, never the distance from the axis: two
  overlapping pebbles inside the region, at distances 9 and 8 from the axis and one unit
  apart, are pushed to a separation of 3, and the first ends at \<open>(6, 8, 0)\<close>, at
  distance 10 from the axis where \<open>r_up = 9\<close>.
\<close>

theorem move_leaves_usable_region:
  "in_usable_region core10 1 (pts3 0) \<and> in_usable_region core10 1 (pts3 1) \<and>
   norm3 (vsub (pts3 0) (pts3 1)) = 1 \<and>
   (\<exists>hp'. move core10 1 pts3 [0, 1, 2] (0, 1) 1 3 = Inr hp' \<and> hp' 0 = (6, 8, 0) \<and>
          planar_dist (origin core10) (hp' 0) = 10 \<and>
          \<not> in_usable_region core10 1 (hp' 0))"
proof -
  have a: "in_usable_region core10 1 (pts3 0)"
    by (simp add: in_usable_region_def bounds10 planar_dist_def origin10 pts3_def power2_eq_square sqrt81)
  have b: "in_usable_region core10 1 (pts3 1)"
    by (simp add: in_usable_region_def bounds10 planar_dist_def origin10 pts3_def power2_eq_square sqrt64)
  have c: "norm3 (vsub (pts3 0) (pts3 1)) = 1"
    by (simp add: norm3_def vsub_def pts3_def power2_eq_square)
  let ?hp = "pts3(0 := (6, 8, 0), 1 := (21 / 5, 28 / 5, 0))"
  have d: "?hp 0 = (6, 8, 0)" by simp
  have e: "planar_dist (origin core10) (?hp 0) = 10"
    by (simp add: planar_dist_def origin10 sqrt100)
  have f: "\<not> in_usable_region core10 1 (?hp 0)"
    by (simp add: in_usable_region_def bounds10 planar_dist_def origin10 sqrt100)
  show ?thesis using a b c d e f move_pts3 by blast
qed

section \<open>The coordinate sampler\<close>

text \<open>With unit draws in \<open>[0,1)\<close>, a non-negative usable radius and \<open>z_low \<le> z_up\<close>,
  the sampler returns \<open>n_pebbles\<close> positions, all in the usable region.\<close>

lemma rng_random_valid:
  "rng_random g = Inr (u, g') \<Longrightarrow> valid_rng g \<Longrightarrow> 0 \<le> u \<and> u < 1 \<and> valid_rng g'"
  by (auto simp: rng_random_def valid_rng_def split: list.splits)

lemma rng_uniform_valid:
  "rng_uniform low high g = Inr (v, g') \<Longrightarrow> valid_rng g \<Longrightarrow> low \<le> high \<Longrightarrow>
     low \<le> v \<and> v \<le> high \<and> valid_rng g'"
proof -
  assume a: "rng_uniform low high g = Inr (v, g')" "valid_rng g" "low \<le> high"
  then obtain u where u: "rng_random g = Inr (u, g')" "v = low + (high - low) * u"
    by (auto simp: rng_uniform_def split: sum.splits)
  have r: "0 \<le> u" "u < 1" "valid_rng g'" using rng_random_valid[OF u(1) a(2)] by auto
  have "(high - low) * u \<le> (high - low) * 1"
    using r a(3) by (intro mult_left_mono) auto
  moreover have "0 \<le> (high - low) * u" using r a(3) by simp
  ultimately show ?thesis using u r by simp
qed

lemma planar_polar:
  assumes "0 \<le> f" "f < 1" "0 \<le> r"
  shows "planar_dist (ox, oy, oz) (ox + f * r * cos t, oy + f * r * sin t, z) \<le> r"
proof -
  have "(f * r * cos t)\<^sup>2 + (f * r * sin t)\<^sup>2 = (f * r)\<^sup>2 * ((sin t)\<^sup>2 + (cos t)\<^sup>2)"
    by (simp only: power_mult_distrib distrib_left add.commute)
  also have "\<dots> = (f * r)\<^sup>2" by (simp only: sin_cos_squared_add mult_1_right)
  finally have "planar_dist (ox, oy, oz) (ox + f * r * cos t, oy + f * r * sin t, z) = \<bar>f * r\<bar>"
    by (simp add: planar_dist_def)
  also have "\<dots> = f * r" using assms by simp
  also have "\<dots> \<le> 1 * r" using assms by (intro mult_right_mono) auto
  finally show ?thesis by simp
qed

lemma sample_loop_in_region:
  assumes "sample_loop k org z_low z_up r_up g = Inr (ps, g')" "valid_rng g" "0 \<le> r_up" "z_low \<le> z_up"
  shows "length ps = k \<and> (\<forall>p\<in>set ps. planar_dist org p \<le> r_up \<and> z_low \<le> snd (snd p) \<and> snd (snd p) \<le> z_up)"
  using assms
proof (induction k arbitrary: g ps)
  case 0
  then show ?case by simp
next
  case (Suc k)
  obtain ox oy oz where org: "org = (ox, oy, oz)" by (cases org) auto
  from Suc.prems(1) obtain f g1 theta g2 z g3 qs where
    s: "rng_random g = Inr (f, g1)" "rng_uniform 0 (2 * pi) g1 = Inr (theta, g2)"
       "rng_uniform z_low z_up g2 = Inr (z, g3)" "sample_loop k org z_low z_up r_up g3 = Inr (qs, g')"
       "ps = (fst org + f * r_up * cos theta, fst (snd org) + f * r_up * sin theta, z) # qs"
    by (auto split: sum.splits prod.splits)
  have f: "0 \<le> f" "f < 1" "valid_rng g1" using rng_random_valid[OF s(1) Suc.prems(2)] by auto
  have t: "valid_rng g2" using rng_uniform_valid[OF s(2) f(3)] by simp
  have z: "z_low \<le> z" "z \<le> z_up" "valid_rng g3" using rng_uniform_valid[OF s(3) t Suc.prems(4)] by auto
  have ih: "length qs = k \<and> (\<forall>p\<in>set qs. planar_dist org p \<le> r_up \<and> z_low \<le> snd (snd p) \<and> snd (snd p) \<le> z_up)"
    using Suc.IH[OF s(4) z(3) Suc.prems(3,4)] .
  have "planar_dist org (fst org + f * r_up * cos theta, fst (snd org) + f * r_up * sin theta, z) \<le> r_up"
    unfolding org using planar_polar[OF f(1,2) Suc.prems(3)] by simp
  then show ?case using ih z s(5) by simp
qed

lemma find_start_coords_in_region:
  assumes "find_start_coords active_core pebble_r n_pebbles g = Inr (ps, g')" "valid_rng g"
      and "usable_bounds active_core pebble_r = Inr (z_up, z_low, r_up)" "0 \<le> r_up" "z_low \<le> z_up"
  shows "int (length ps) = n_pebbles \<and> (\<forall>p\<in>set ps. in_usable_region active_core pebble_r p)"
proof -
  have n: "0 \<le> n_pebbles" and
    s: "sample_loop (nat n_pebbles) (origin active_core) z_low z_up r_up g = Inr (ps, g')"
    using assms(1,3) by (auto simp: find_start_coords_def split: if_splits)
  show ?thesis
    using sample_loop_in_region[OF s assms(2,4,5)] n assms(3)
    by (simp add: in_usable_region_def)
qed

section \<open>The lattice builder and the overlap detector\<close>

text \<open>\<^verbatim>\<open>meshgrid\<close> returns no lattice: once \<^verbatim>\<open>core_r\<close> is read, line 413
  raises, whatever the positions, the count and the cell width are.\<close>

lemma meshgrid_raises: "meshgrid active_core coords n_pebbles delta \<noteq> Inr mesh_id"
  by (simp add: meshgrid_def np_ceil_int_def getattr_def split: option.split)


text \<open>So the detector, which builds its lattice in line 289 after sampling the pairs,
  returns neither the rods of lines 292-330 nor a rod mapping.\<close>

lemma unfiltered_rods_raises: "unfiltered_rods active_core coords n_pebbles g \<noteq> Inr res"
  by (simp add: unfiltered_rods_def Let_def meshgrid_raises split: sum.split prod.split)

lemma nearest_neighbor_raises: "nearest_neighbor active_core pebble_r coords n_pebbles g \<noteq> Inr res"
  by (simp add: nearest_neighbor_def unfiltered_rods_raises split: sum.split prod.split)

subsection \<open>Two runs of the detector\<close>










lemma nat4: "nat 4 = Suc (Suc (Suc (Suc 0)))"
  by simp






section \<open>The relaxation loop\<close>

text \<open>Line 240 raises on every rod it is reached for, so line 241 assigns nothing.\<close>

lemma shrink_raises: "shrink active_core n_pebbles k d_out_0 d_in d_out \<noteq> Inr d'"
  by (simp add: shrink_def np_floor_int_def Let_def split: sum.split option.split)







lemma d_out_0_q: "jt_d_out_0 (CylCore 20 45 (0, 0, 0) True) 4 = Inr 30"
proof -
  have "root 3 (15 ^ 3) = (15 :: real)" by (rule real_root_power_cancel) simp_all
  then have "root 3 3375 = (15 :: real)" by simp
  then show ?thesis
    by (simp add: jt_d_out_0_def CylCore_def Core_def getattr_def core_volume_def)
qed








text \<open>The values of \<open>d_out\<close> over a run: the one of line 208 and no other.\<close>

lemma rod_loop_values_Nil:
  "rod_loop_values active_core pebble_r coords n_pebbles k d_out_0 rod_queue todo hp dout = []"
  by (cases todo) (auto simp: Let_def shrink_raises split: sum.split)

lemma jt_loop_values_Nil:
  "jt_loop_values fuel active_core pebble_r coords n_pebbles k d_out_0 st = []"
  by (cases fuel) (simp_all add: nearest_neighbor_raises split: sum.split)

lemma d_out_values_q:
  "d_out_values fuel (CylCore 20 45 (0, 0, 0) True) 7 quad_store [0, 1, 2, 3] 4 k
     (draws [0, 1, 0, 2, 1, 3, 2, 3]) = [30]"
  by (simp add: d_out_values_def d_out_0_q jt_loop_values_Nil)



section \<open>The loops of the detector, taken by themselves\<close>

text \<open>
  No call of \<^verbatim>\<open>nearest_neighbor\<close> reaches lines 292-352. The lemmas of this section
  evaluate these lines as functions of a lattice or of a rod mapping written down by
  hand; they say what the loops compute and nothing about a run of the program.
\<close>

text \<open>Lines 312-314 filter \<^verbatim>\<open>x_dict\<close> by the third index, and \<^verbatim>\<open>y_dict\<close>, built in
  lines 305-308, is not used: two cells that agree in the first and third index count as
  neighbours however far apart they are in the second.\<close>

lemma cell_loop_ignores_second_index:
  "map fst (cell_loop [((1, 0, 1), [0]), ((1, 2, 1), [1]), ((1, 0, 2), [2])] 3 cs []) =
     [(0, 1), (0, 2), (1, 2)]"
  by (simp add: adjacent_def)

text \<open>The pairs of a cell are taken with the cells from it onwards in the order of the
  keys (\<^verbatim>\<open>keys[i:]\<close>, line 299): with three cells in a row, the pair of the outer two
  is recorded only when the middle cell comes first.\<close>

lemma cell_loop_order:
  "map fst (cell_loop [((0, 0, 0), [0]), ((1, 0, 0), [1]), ((2, 0, 0), [2])] 3 cs []) = [(0, 1), (1, 2)]"
  "map fst (cell_loop [((1, 0, 0), [1]), ((0, 0, 0), [0]), ((2, 0, 0), [2])] 3 cs []) = [(0, 1), (1, 2), (0, 2)]"
  by (simp_all add: adjacent_def)

text \<open>The reduction of lines 340-352 goes through the indices in increasing order and
  takes the rods of an index from the mapping as it then is: of the four rods below,
  \<open>(0,2)\<close> goes with index 0 and \<open>(1,3)\<close> with index 1, and \<open>(2,3)\<close> stays although it
  is the longest rod of both its ends.\<close>

lemma reduce_all_in_index_order:
  "reduce_all 4 [((0, 1), 9), ((0, 2), 12), ((1, 3), 13), ((2, 3), 14)] = [((0, 1), 9), ((2, 3), 14)]"
  by (simp add: reduce_all_def reduce_point_def touches_def nat4 del: nat_numeral)

end
